theory Spec2Isabelle
  imports Main
begin

section \<open>Python values and exceptions\<close>

text \<open>
  The values \<^verbatim>\<open>json.loads\<close> produces: \<^verbatim>\<open>None\<close>, \<^verbatim>\<open>bool\<close>, \<^verbatim>\<open>int\<close> (unbounded),
  \<^verbatim>\<open>float\<close>, \<^verbatim>\<open>str\<close>, \<^verbatim>\<open>list\<close> and \<^verbatim>\<open>dict\<close> with string keys. Floats are
  kept abstract (the type parameter): nothing in the repository computes with them.
  A \<^verbatim>\<open>dict\<close> is the list of its items; a key is looked up with \<open>map_of\<close>.
\<close>

datatype 'f json =
    JNull
  | JBool bool
  | JInt int
  | JFloat 'f
  | JString string
  | JArray "'f json list"
  | JObject "(string \<times> 'f json) list"

text \<open>
  The text of a file is kept as Unicode code points, so that every character a log line
  can hold is there.
\<close>

type_synonym unicode = "nat list"


text \<open>
  The exceptions the modelled code meets. \<open>JSONDecodeError msg doc pos lineno colno\<close>
  has the attributes of \<^verbatim>\<open>json.JSONDecodeError\<close>. \<open>KeyboardInterrupt\<close> and
  \<open>SystemExit\<close> derive from \<^verbatim>\<open>BaseException\<close> only; every other one is an
  \<^verbatim>\<open>Exception\<close>.
\<close>

datatype exn =
    JSONDecodeError string unicode nat nat int
  | KeyError string
  | AttributeError string
  | OSError string
  | ValueError string
  | TypeError string
  | UnicodeDecodeError
  | UnicodeEncodeError
  | RecursionError
  | MemoryError
  | KeyboardInterrupt
  | SystemExit

fun is_Exception :: "exn \<Rightarrow> bool" where
  "is_Exception KeyboardInterrupt = False"
| "is_Exception SystemExit = False"
| "is_Exception _ = True"

text \<open>
  A computation that returns a value (\<open>Inr\<close>) or raises (\<open>Inl\<close>); \<open>bind_exn\<close> runs the
  second computation on the value of the first, and raises what the first raises.
\<close>

definition bind_exn :: "exn + 'a \<Rightarrow> ('a \<Rightarrow> exn + 'b) \<Rightarrow> exn + 'b" where
  "bind_exn x f = (case x of Inl e \<Rightarrow> Inl e | Inr a \<Rightarrow> f a)"

text \<open>
  \<^verbatim>\<open>str(v)\<close> on a value of a JSON type: a \<^verbatim>\<open>str\<close> is returned as it is, and for every
  other JSON type \<^verbatim>\<open>str\<close> is \<^verbatim>\<open>repr\<close>. The builtin \<^verbatim>\<open>repr\<close> is a parameter; it
  returns the string or raises (\<^verbatim>\<open>ValueError\<close> on an \<^verbatim>\<open>int\<close> of more than 4300 digits,
  \<^verbatim>\<open>RecursionError\<close> on a deeply nested list or dict).
\<close>

definition py_str :: "('f json \<Rightarrow> exn + string) \<Rightarrow> 'f json \<Rightarrow> exn + string" where
  "py_str repr v = (case v of JString s \<Rightarrow> Inr s | _ \<Rightarrow> repr v)"

text \<open>\<^verbatim>\<open>raw.get(k, d)\<close> and \<^verbatim>\<open>raw[k]\<close> on a dict.\<close>

definition dict_get :: "(string \<rightharpoonup> 'v) \<Rightarrow> string \<Rightarrow> 'v \<Rightarrow> 'v" where
  "dict_get raw k d = (case raw k of None \<Rightarrow> d | Some v \<Rightarrow> v)"

definition dict_getitem :: "(string \<rightharpoonup> 'v) \<Rightarrow> string \<Rightarrow> exn + 'v" where
  "dict_getitem raw k = (case raw k of None \<Rightarrow> Inl (KeyError k) | Some v \<Rightarrow> Inr v)"

section \<open>json\_reader.py\<close>

record JsonLogRecord =
  time :: string
  logger :: string
  level :: string
  file_name :: string
  thread :: string
  message :: string
  exc_type :: "string option"
  exc_message :: "string option"
  exc_traceback :: "string option"

text \<open>
  The expression \<^verbatim>\<open>str(raw.get(k, ""))\<close>, which \<^verbatim>\<open>from_dict\<close> writes out for each of
  the six mandatory fields.
\<close>

definition str_get ::
  "('f json \<Rightarrow> exn + string) \<Rightarrow> (string \<rightharpoonup> 'f json) \<Rightarrow> string \<Rightarrow> exn + string" where
  "str_get repr raw k = py_str repr (dict_get raw k (JString ''''))"

text \<open>
  The expression \<^verbatim>\<open>str(raw[k]) if raw.get(k) is not None else None\<close>, which
  \<^verbatim>\<open>from_dict\<close> writes out for each exception field. \<^verbatim>\<open>raw.get(k)\<close> is \<^verbatim>\<open>None\<close>
  for a missing key and for a \<^verbatim>\<open>null\<close> value alike.
\<close>

definition str_or_none ::
  "('f json \<Rightarrow> exn + string) \<Rightarrow> (string \<rightharpoonup> 'f json) \<Rightarrow> string \<Rightarrow> exn + string option" where
  "str_or_none repr raw k =
     (if dict_get raw k JNull \<noteq> JNull
      then bind_exn (dict_getitem raw k) (\<lambda>v.
           bind_exn (py_str repr v) (\<lambda>s. Inr (Some s)))
      else Inr None)"

text \<open>
  \<^verbatim>\<open>from_dict\<close>: the nine keyword arguments are evaluated in the order they are written,
  and the first \<^verbatim>\<open>str\<close> that raises ends the call (there is no \<^verbatim>\<open>try\<close>).
\<close>

definition from_dict ::
  "('f json \<Rightarrow> exn + string) \<Rightarrow> (string \<rightharpoonup> 'f json) \<Rightarrow> exn + JsonLogRecord" where
  "from_dict repr raw =
     bind_exn (str_get repr raw ''time'') (\<lambda>t.
     bind_exn (str_get repr raw ''logger'') (\<lambda>lg.
     bind_exn (str_get repr raw ''level'') (\<lambda>lv.
     bind_exn (str_get repr raw ''file'') (\<lambda>fl.
     bind_exn (str_get repr raw ''thread'') (\<lambda>th.
     bind_exn (str_get repr raw ''message'') (\<lambda>ms.
     bind_exn (str_or_none repr raw ''exc_type'') (\<lambda>et.
     bind_exn (str_or_none repr raw ''exc_message'') (\<lambda>em.
     bind_exn (str_or_none repr raw ''exc_traceback'') (\<lambda>tb.
       Inr \<lparr> time = t, logger = lg, level = lv, file_name = fl, thread = th,
             message = ms, exc_type = et, exc_message = em,
             exc_traceback = tb \<rparr>)))))))))"









text \<open>
  A generator that has run to its end: the items it yielded, in order, and the exception
  that ended it (\<open>None\<close> for a normal end). \<^verbatim>\<open>list(g)\<close> returns the items, or raises.
\<close>

type_synonym 'a generated = "'a list \<times> exn option"

definition py_list :: "'a generated \<Rightarrow> exn + 'a list" where
  "py_list g = (case snd g of None \<Rightarrow> Inr (fst g) | Some e \<Rightarrow> Inl e)"











text \<open>The names of the dataclass fields of \<^verbatim>\<open>JsonLogRecord\<close>.\<close>

definition record_fields :: "string list" where
  "record_fields = [''time'', ''logger'', ''level'', ''file'', ''thread'', ''message'',
                    ''exc_type'', ''exc_message'', ''exc_traceback'']"


function decimal_nat :: "nat \<Rightarrow> string" where
  "decimal_nat n =
     (if n < 10 then [char_of (48 + n)]
      else decimal_nat (n div 10) @ [char_of (48 + n mod 10)])"
  by pat_completeness auto
termination
  by (relation "measure id") auto

definition decimal :: "int \<Rightarrow> string" where
  "decimal i = (if i < 0 then CHR ''-'' # decimal_nat (nat (- i)) else decimal_nat (nat i))"

definition sample_repr :: "unit json \<Rightarrow> exn + string" where
  "sample_repr v =
     (case v of
        JNull \<Rightarrow> Inr ''None''
      | JBool b \<Rightarrow> Inr (if b then ''True'' else ''False'')
      | JInt i \<Rightarrow>
          (if 10 ^ 4300 \<le> \<bar>i\<bar>
           then Inl (ValueError ''Exceeds the limit (4300 digits) for integer string conversion'')
           else Inr (decimal i))
      | _ \<Rightarrow> Inr '''')"

declare decimal_nat.simps [simp del]


section \<open>json\_logger.py: the record model and the serializer\<close>

text \<open>
  A class is known by its \<^verbatim>\<open>__name__\<close>.
\<close>

datatype py_class = Class (dunder_name: string)

text \<open>
  What \<^verbatim>\<open>from_record\<close> reads of a \<^verbatim>\<open>logging.LogRecord\<close>: four attributes, the outcome
  of \<^verbatim>\<open>record.getMessage()\<close> (it raises when \<^verbatim>\<open>msg % args\<close> does), and \<^verbatim>\<open>exc_info\<close>.
  \<^verbatim>\<open>Logger._log\<close> leaves \<^verbatim>\<open>exc_info\<close> falsy (\<open>None\<close> here) or makes it a triple of the
  exception class, the exception and its traceback, each of which is \<^verbatim>\<open>None\<close> after
  \<^verbatim>\<open>exc_info=True\<close> outside an \<^verbatim>\<open>except\<close> block (\<^verbatim>\<open>sys.exc_info()\<close> is then
  \<^verbatim>\<open>(None, None, None)\<close>, and a tuple is truthy). The exception values and the
  tracebacks are type parameters.
\<close>

record ('v, 't) LogRecord =
  name :: string
  levelname :: string
  filename :: string
  threadName :: string
  getMessage :: "exn + string"
  exc_info :: "(py_class option \<times> 'v option \<times> 't option) option"

record JsonLogEntry =
  entry_time :: string
  entry_logger :: string
  entry_level :: string
  entry_file :: string
  entry_thread :: string
  entry_message :: string
  entry_exc_type :: "string option"
  entry_exc_message :: "string option"
  entry_exc_traceback :: "string option"

text \<open>
  The block under \<^verbatim>\<open>if record.exc_info:\<close>. \<^verbatim>\<open>str(evalue)\<close> is outside the \<^verbatim>\<open>try\<close>, so
  what it raises propagates; \<^verbatim>\<open>format_exception\<close> is inside it, and \<^verbatim>\<open>except Exception\<close>
  turns an \<^verbatim>\<open>Exception\<close> into a \<^verbatim>\<open>None\<close> traceback. \<^verbatim>\<open>str\<close> on an exception and
  \<^verbatim>\<open>traceback.format_exception\<close> are parameters.
\<close>

definition exception_fields ::
  "('v \<Rightarrow> exn + string) \<Rightarrow> (py_class option \<Rightarrow> 'v option \<Rightarrow> 't option \<Rightarrow> exn + string list)
     \<Rightarrow> (py_class option \<times> 'v option \<times> 't option) option
     \<Rightarrow> exn + (string option \<times> string option \<times> string option)" where
  "exception_fields str_value format_exception info =
     (case info of
        None \<Rightarrow> Inr (None, None, None)
      | Some (etype, evalue, etb) \<Rightarrow>
          (let exc_type = (case etype of None \<Rightarrow> None | Some c \<Rightarrow> Some (dunder_name c))
           in bind_exn (case evalue of
                          None \<Rightarrow> Inr None
                        | Some v \<Rightarrow> bind_exn (str_value v) (\<lambda>s. Inr (Some s))) (\<lambda>exc_message.
              bind_exn (case format_exception etype evalue etb of
                          Inl e \<Rightarrow> if is_Exception e then Inr None else Inl e
                        | Inr parts \<Rightarrow> Inr (Some (concat parts))) (\<lambda>exc_traceback.
                Inr (exc_type, exc_message, exc_traceback)))))"

text \<open>
  \<^verbatim>\<open>JsonLogEntry.from_record\<close>. \<^verbatim>\<open>Formatter().formatTime(record, datefmt)\<close> is a
  parameter; it is called first, and \<^verbatim>\<open>record.getMessage()\<close> last, in the call of the
  constructor.
\<close>

definition from_record ::
  "(('v, 't) LogRecord \<Rightarrow> exn + string) \<Rightarrow> ('v \<Rightarrow> exn + string)
     \<Rightarrow> (py_class option \<Rightarrow> 'v option \<Rightarrow> 't option \<Rightarrow> exn + string list)
     \<Rightarrow> ('v, 't) LogRecord \<Rightarrow> exn + JsonLogEntry" where
  "from_record formatTime str_value format_exception record =
     bind_exn (formatTime record) (\<lambda>tm.
     bind_exn (exception_fields str_value format_exception (exc_info record)) (\<lambda>x.
     bind_exn (getMessage record) (\<lambda>msg.
       Inr \<lparr> entry_time = tm, entry_logger = name record, entry_level = levelname record,
             entry_file = filename record, entry_thread = threadName record,
             entry_message = msg, entry_exc_type = fst x, entry_exc_message = fst (snd x),
             entry_exc_traceback = snd (snd x) \<rparr>)))"

text \<open>
  \<^verbatim>\<open>dataclasses.asdict\<close> on an entry: the fields in the order of their declaration, a
  \<^verbatim>\<open>None\<close> being JSON's \<^verbatim>\<open>null\<close>.
\<close>

definition opt_json :: "string option \<Rightarrow> 'f json" where
  "opt_json x = (case x of None \<Rightarrow> JNull | Some s \<Rightarrow> JString s)"

definition asdict :: "JsonLogEntry \<Rightarrow> (string \<times> 'f json) list" where
  "asdict e =
     [(''time'', JString (entry_time e)),
      (''logger'', JString (entry_logger e)),
      (''level'', JString (entry_level e)),
      (''file'', JString (entry_file e)),
      (''thread'', JString (entry_thread e)),
      (''message'', JString (entry_message e)),
      (''exc_type'', opt_json (entry_exc_type e)),
      (''exc_message'', opt_json (entry_exc_message e)),
      (''exc_traceback'', opt_json (entry_exc_traceback e))]"

text \<open>
  \<^verbatim>\<open>json.dumps(..., ensure_ascii=False, default=str)\<close> is a parameter, which returns the
  text or raises. \<^verbatim>\<open>_serialize_record\<close> is \<^verbatim>\<open>from_record\<close> followed by
  \<^verbatim>\<open>json_dumps(asdict(payload))\<close>.
\<close>

type_synonym 'f dumps = "'f json \<Rightarrow> exn + unicode"

definition serialize_entry :: "'f dumps \<Rightarrow> JsonLogEntry \<Rightarrow> exn + unicode" where
  "serialize_entry dumps payload = dumps (JObject (asdict payload))"

definition serialize_record ::
  "(('v, 't) LogRecord \<Rightarrow> exn + string) \<Rightarrow> ('v \<Rightarrow> exn + string)
     \<Rightarrow> (py_class option \<Rightarrow> 'v option \<Rightarrow> 't option \<Rightarrow> exn + string list)
     \<Rightarrow> 'f dumps \<Rightarrow> ('v, 't) LogRecord \<Rightarrow> exn + unicode" where
  "serialize_record formatTime str_value format_exception dumps record =
     bind_exn (from_record formatTime str_value format_exception record)
       (serialize_entry dumps)"

text \<open>
  For the examples. An exception is its class name and its message; \<^verbatim>\<open>str\<close> gives the
  message. Without a traceback object \<^verbatim>\<open>format_exception\<close> gives the one line
  \<^verbatim>\<open>Class: message\<close>, and \<^verbatim>\<open>NoneType: None\<close> when the exception is \<^verbatim>\<open>None\<close> (no example
  has a traceback object). \<^verbatim>\<open>json.dumps\<close> writes an object whose values are strings
  without escapes, or \<^verbatim>\<open>null\<close> (no example has another value), and \<^verbatim>\<open>json.loads\<close> reads
  the one line that \<^verbatim>\<open>json.dumps\<close> wrote for the entry.
\<close>

definition sample_formatTime :: "((string \<times> string), unit) LogRecord \<Rightarrow> exn + string" where
  "sample_formatTime record = Inr ''2026-01-01 00:00:00''"

definition sample_str_value :: "string \<times> string \<Rightarrow> exn + string" where
  "sample_str_value v = Inr (snd v)"

definition sample_format_exception ::
  "py_class option \<Rightarrow> (string \<times> string) option \<Rightarrow> unit option \<Rightarrow> exn + string list" where
  "sample_format_exception etype evalue etb =
     (case evalue of
        None \<Rightarrow> Inr [''NoneType: None'' @ [CHR 0x0A]]
      | Some v \<Rightarrow> Inr [fst v @ '': '' @ snd v @ [CHR 0x0A]])"

definition sample_record :: "((string \<times> string), unit) LogRecord" where
  "sample_record =
     \<lparr> name = ''app'', levelname = ''ERROR'', filename = ''main.py'',
       threadName = ''MainThread'', getMessage = Inr ''boom'',
       exc_info = Some (None, None, None) \<rparr>"







section \<open>Properties of the reader\<close>

subsection \<open>Sequencing\<close>

lemma bind_exn_Inr [simp]: "bind_exn (Inr a) f = f a"
  by (simp add: bind_exn_def)

lemma bind_exn_Inl [simp]: "bind_exn (Inl e) f = Inl e"
  by (simp add: bind_exn_def)

lemma bind_exn_eq_Inr: "bind_exn x f = Inr r \<longleftrightarrow> (\<exists>a. x = Inr a \<and> f a = Inr r)"
  by (cases x) simp_all

lemma bind_exn_eq_Inl:
  "bind_exn x f = Inl e \<longleftrightarrow> x = Inl e \<or> (\<exists>a. x = Inr a \<and> f a = Inl e)"
  by (cases x) simp_all

lemma bind_exn_InrE:
  assumes "bind_exn x f = Inr r"
  obtains a where "x = Inr a" and "f a = Inr r"
  using assms by (auto simp add: bind_exn_eq_Inr)

subsection \<open>\<^verbatim>\<open>from_dict\<close>\<close>

lemma str_get_cases:
  "str_get repr raw k =
     (case raw k of None \<Rightarrow> Inr '''' | Some (JString s) \<Rightarrow> Inr s | Some v \<Rightarrow> repr v)"
  by (simp add: str_get_def dict_get_def py_str_def split: option.splits json.splits)

lemma str_get_absent: "raw k = None \<Longrightarrow> str_get repr raw k = Inr ''''"
  by (simp add: str_get_cases)

lemma str_get_InrD:
  "str_get repr raw k = Inr s \<Longrightarrow>
     (case raw k of None \<Rightarrow> s = '''' | Some (JString s') \<Rightarrow> s = s' | Some v \<Rightarrow> repr v = Inr s)"
  by (simp add: str_get_cases split: option.splits json.splits)

lemma str_get_InlD:
  "str_get repr raw k = Inl e \<Longrightarrow> \<exists>v. raw k = Some v \<and> repr v = Inl e"
  by (simp add: str_get_cases split: option.splits json.splits)

lemma str_get_returns:
  "(\<And>v. raw k = Some v \<Longrightarrow> \<exists>s. py_str repr v = Inr s) \<Longrightarrow> \<exists>s. str_get repr raw k = Inr s"
  by (cases "raw k") (simp_all add: str_get_def dict_get_def py_str_def)

lemma str_or_none_cases:
  "str_or_none repr raw k =
     (case raw k of None \<Rightarrow> Inr None | Some JNull \<Rightarrow> Inr None
      | Some (JString s) \<Rightarrow> Inr (Some s)
      | Some v \<Rightarrow> bind_exn (repr v) (\<lambda>s. Inr (Some s)))"
  by (simp add: str_or_none_def dict_get_def dict_getitem_def py_str_def
      split: option.splits json.splits)

lemma str_or_none_absent:
  "raw k = None \<or> raw k = Some JNull \<Longrightarrow> str_or_none repr raw k = Inr None"
  by (auto simp add: str_or_none_cases)

lemma str_or_none_InrD:
  "str_or_none repr raw k = Inr x \<Longrightarrow>
     (case raw k of None \<Rightarrow> x = None | Some JNull \<Rightarrow> x = None
      | Some (JString s) \<Rightarrow> x = Some s
      | Some v \<Rightarrow> (\<exists>s. repr v = Inr s \<and> x = Some s))"
  by (auto simp add: str_or_none_cases bind_exn_eq_Inr split: option.splits json.splits)

lemma str_or_none_InlD:
  "str_or_none repr raw k = Inl e \<Longrightarrow> \<exists>v. raw k = Some v \<and> repr v = Inl e"
  by (auto simp add: str_or_none_cases bind_exn_eq_Inl split: option.splits json.splits)

lemma str_or_none_returns:
  "(\<And>v. raw k = Some v \<Longrightarrow> \<exists>s. py_str repr v = Inr s) \<Longrightarrow>
     \<exists>x. str_or_none repr raw k = Inr x"
  by (cases "raw k")
     (auto simp add: str_or_none_def dict_get_def dict_getitem_def)

lemma from_dict_InrD:
  assumes "from_dict repr raw = Inr r"
  shows "str_get repr raw ''time'' = Inr (time r)"
    and "str_get repr raw ''logger'' = Inr (logger r)"
    and "str_get repr raw ''level'' = Inr (level r)"
    and "str_get repr raw ''file'' = Inr (file_name r)"
    and "str_get repr raw ''thread'' = Inr (thread r)"
    and "str_get repr raw ''message'' = Inr (message r)"
    and "str_or_none repr raw ''exc_type'' = Inr (exc_type r)"
    and "str_or_none repr raw ''exc_message'' = Inr (exc_message r)"
    and "str_or_none repr raw ''exc_traceback'' = Inr (exc_traceback r)"
proof -
  from assms obtain t lg lv fl th ms et em tb
    where a: "str_get repr raw ''time'' = Inr t" "str_get repr raw ''logger'' = Inr lg"
      "str_get repr raw ''level'' = Inr lv" "str_get repr raw ''file'' = Inr fl"
      "str_get repr raw ''thread'' = Inr th" "str_get repr raw ''message'' = Inr ms"
      "str_or_none repr raw ''exc_type'' = Inr et"
      "str_or_none repr raw ''exc_message'' = Inr em"
      "str_or_none repr raw ''exc_traceback'' = Inr tb"
      and r: "Inr \<lparr> time = t, logger = lg, level = lv, file_name = fl, thread = th,
             message = ms, exc_type = et, exc_message = em,
             exc_traceback = tb \<rparr> = (Inr r :: exn + JsonLogRecord)"
    unfolding from_dict_def by (elim bind_exn_InrE)
  from r have r': "r = \<lparr> time = t, logger = lg, level = lv, file_name = fl, thread = th,
             message = ms, exc_type = et, exc_message = em, exc_traceback = tb \<rparr>"
    by (simp only: sum.inject)
  show "str_get repr raw ''time'' = Inr (time r)"
    and "str_get repr raw ''logger'' = Inr (logger r)"
    and "str_get repr raw ''level'' = Inr (level r)"
    and "str_get repr raw ''file'' = Inr (file_name r)"
    and "str_get repr raw ''thread'' = Inr (thread r)"
    and "str_get repr raw ''message'' = Inr (message r)"
    and "str_or_none repr raw ''exc_type'' = Inr (exc_type r)"
    and "str_or_none repr raw ''exc_message'' = Inr (exc_message r)"
    and "str_or_none repr raw ''exc_traceback'' = Inr (exc_traceback r)"
    by (simp_all only: a r' JsonLogRecord.simps)
qed

lemma from_dict_InlD:
  assumes "from_dict repr raw = Inl e"
  shows "\<exists>c\<in>set record_fields. \<exists>v. raw c = Some v \<and> repr v = Inl e"
proof -
  have m: "\<And>k. str_get repr raw k = Inl e \<Longrightarrow> k \<in> set record_fields \<Longrightarrow> ?thesis"
    using str_get_InlD by blast
  have n: "\<And>k. str_or_none repr raw k = Inl e \<Longrightarrow> k \<in> set record_fields \<Longrightarrow> ?thesis"
    using str_or_none_InlD by blast
  have k: "''time'' \<in> set record_fields" "''logger'' \<in> set record_fields"
    "''level'' \<in> set record_fields" "''file'' \<in> set record_fields"
    "''thread'' \<in> set record_fields" "''message'' \<in> set record_fields"
    "''exc_type'' \<in> set record_fields" "''exc_message'' \<in> set record_fields"
    "''exc_traceback'' \<in> set record_fields"
    by (simp_all add: record_fields_def)
  from assms show ?thesis
    unfolding from_dict_def bind_exn_eq_Inl
    by (elim disjE exE conjE) ((erule m n, rule k) | simp)+
qed

lemma from_dict_returns:
  assumes "\<And>c v. c \<in> set record_fields \<Longrightarrow> raw c = Some v \<Longrightarrow> \<exists>s. py_str repr v = Inr s"
  shows "\<exists>r. from_dict repr raw = Inr r"
proof -
  have k: "''time'' \<in> set record_fields" "''logger'' \<in> set record_fields"
    "''level'' \<in> set record_fields" "''file'' \<in> set record_fields"
    "''thread'' \<in> set record_fields" "''message'' \<in> set record_fields"
    "''exc_type'' \<in> set record_fields" "''exc_message'' \<in> set record_fields"
    "''exc_traceback'' \<in> set record_fields"
    by (simp_all add: record_fields_def)
  have "\<exists>s. str_get repr raw ''time'' = Inr s"
    by (rule str_get_returns) (rule assms [OF k(1)])
  then obtain t where t: "str_get repr raw ''time'' = Inr t" ..
  have "\<exists>s. str_get repr raw ''logger'' = Inr s"
    by (rule str_get_returns) (rule assms [OF k(2)])
  then obtain lg where lg: "str_get repr raw ''logger'' = Inr lg" ..
  have "\<exists>s. str_get repr raw ''level'' = Inr s"
    by (rule str_get_returns) (rule assms [OF k(3)])
  then obtain lv where lv: "str_get repr raw ''level'' = Inr lv" ..
  have "\<exists>s. str_get repr raw ''file'' = Inr s"
    by (rule str_get_returns) (rule assms [OF k(4)])
  then obtain fl where fl: "str_get repr raw ''file'' = Inr fl" ..
  have "\<exists>s. str_get repr raw ''thread'' = Inr s"
    by (rule str_get_returns) (rule assms [OF k(5)])
  then obtain th where th: "str_get repr raw ''thread'' = Inr th" ..
  have "\<exists>s. str_get repr raw ''message'' = Inr s"
    by (rule str_get_returns) (rule assms [OF k(6)])
  then obtain ms where ms: "str_get repr raw ''message'' = Inr ms" ..
  have "\<exists>x. str_or_none repr raw ''exc_type'' = Inr x"
    by (rule str_or_none_returns) (rule assms [OF k(7)])
  then obtain et where et: "str_or_none repr raw ''exc_type'' = Inr et" ..
  have "\<exists>x. str_or_none repr raw ''exc_message'' = Inr x"
    by (rule str_or_none_returns) (rule assms [OF k(8)])
  then obtain em where em: "str_or_none repr raw ''exc_message'' = Inr em" ..
  have "\<exists>x. str_or_none repr raw ''exc_traceback'' = Inr x"
    by (rule str_or_none_returns) (rule assms [OF k(9)])
  then obtain tb where tb: "str_or_none repr raw ''exc_traceback'' = Inr tb" ..
  have "from_dict repr raw =
      Inr \<lparr> time = t, logger = lg, level = lv, file_name = fl, thread = th,
            message = ms, exc_type = et, exc_message = em, exc_traceback = tb \<rparr>"
    unfolding from_dict_def by (simp only: t lg lv fl th ms et em tb bind_exn_Inr)
  then show ?thesis by (rule exI)
qed

lemma from_dict_cong:
  assumes "raw1 ''time'' = raw2 ''time''" "raw1 ''logger'' = raw2 ''logger''"
    "raw1 ''level'' = raw2 ''level''" "raw1 ''file'' = raw2 ''file''"
    "raw1 ''thread'' = raw2 ''thread''" "raw1 ''message'' = raw2 ''message''"
    "raw1 ''exc_type'' = raw2 ''exc_type''" "raw1 ''exc_message'' = raw2 ''exc_message''"
    "raw1 ''exc_traceback'' = raw2 ''exc_traceback''"
  shows "from_dict repr raw1 = from_dict repr raw2"
  unfolding from_dict_def str_get_cases str_or_none_cases by (simp only: assms)

lemma from_dict_agree:
  assumes "\<forall>c\<in>set record_fields. raw1 c = raw2 c"
  shows "from_dict repr raw1 = from_dict repr raw2"
proof (rule from_dict_cong)
  show "raw1 ''time'' = raw2 ''time''" using assms by (simp add: record_fields_def)
  show "raw1 ''logger'' = raw2 ''logger''" using assms by (simp add: record_fields_def)
  show "raw1 ''level'' = raw2 ''level''" using assms by (simp add: record_fields_def)
  show "raw1 ''file'' = raw2 ''file''" using assms by (simp add: record_fields_def)
  show "raw1 ''thread'' = raw2 ''thread''" using assms by (simp add: record_fields_def)
  show "raw1 ''message'' = raw2 ''message''" using assms by (simp add: record_fields_def)
  show "raw1 ''exc_type'' = raw2 ''exc_type''" using assms by (simp add: record_fields_def)
  show "raw1 ''exc_message'' = raw2 ''exc_message''" using assms by (simp add: record_fields_def)
  show "raw1 ''exc_traceback'' = raw2 ''exc_traceback''"
    using assms by (simp add: record_fields_def)
qed

lemma from_dict_all_absent:
  assumes "\<forall>c\<in>set record_fields. raw c = None"
  shows "from_dict repr raw =
     Inr \<lparr> time = '''', logger = '''', level = '''', file_name = '''', thread = '''',
           message = '''', exc_type = None, exc_message = None, exc_traceback = None \<rparr>"
proof -
  have k: "raw ''time'' = None" "raw ''logger'' = None" "raw ''level'' = None"
    "raw ''file'' = None" "raw ''thread'' = None" "raw ''message'' = None"
    "raw ''exc_type'' = None" "raw ''exc_message'' = None" "raw ''exc_traceback'' = None"
    using assms by (simp_all add: record_fields_def)
  show ?thesis
    unfolding from_dict_def str_get_cases str_or_none_cases
    by (simp only: k option.case bind_exn_Inr)
qed

text \<open>
  C8. Whenever \<^verbatim>\<open>from_dict\<close> returns a record: a mandatory field whose key is missing is
  the empty string, and an exception field whose key is missing, or whose value is
  \<^verbatim>\<open>null\<close>, is \<^verbatim>\<open>None\<close>. A dict with none of the nine keys gives the record of the
  defaults. The outcome, the record or the exception raised, depends on the nine field
  keys only, so that a dict that differs in other keys has the same outcome.
\<close>

theorem from_dict_absent_fields:
  "(from_dict repr raw = Inr r \<longrightarrow>
       (raw ''time'' = None \<longrightarrow> time r = '''')
     \<and> (raw ''logger'' = None \<longrightarrow> logger r = '''')
     \<and> (raw ''level'' = None \<longrightarrow> level r = '''')
     \<and> (raw ''file'' = None \<longrightarrow> file_name r = '''')
     \<and> (raw ''thread'' = None \<longrightarrow> thread r = '''')
     \<and> (raw ''message'' = None \<longrightarrow> message r = '''')
     \<and> (raw ''exc_type'' = None \<or> raw ''exc_type'' = Some JNull \<longrightarrow> exc_type r = None)
     \<and> (raw ''exc_message'' = None \<or> raw ''exc_message'' = Some JNull
            \<longrightarrow> exc_message r = None)
     \<and> (raw ''exc_traceback'' = None \<or> raw ''exc_traceback'' = Some JNull
            \<longrightarrow> exc_traceback r = None))
   \<and> ((\<forall>c\<in>set record_fields. raw c = None) \<longrightarrow>
         from_dict repr raw =
           Inr \<lparr> time = '''', logger = '''', level = '''', file_name = '''', thread = '''',
                 message = '''', exc_type = None, exc_message = None,
                 exc_traceback = None \<rparr>)
   \<and> ((\<forall>c\<in>set record_fields. raw' c = raw c) \<longrightarrow> from_dict repr raw' = from_dict repr raw)"
proof (intro conjI impI)
  assume r: "from_dict repr raw = Inr r"
  note d = from_dict_InrD [OF r]
  show "time r = ''''" if "raw ''time'' = None"
    using d(1) str_get_absent [of raw "''time''" repr] that by simp
  show "logger r = ''''" if "raw ''logger'' = None"
    using d(2) str_get_absent [of raw "''logger''" repr] that by simp
  show "level r = ''''" if "raw ''level'' = None"
    using d(3) str_get_absent [of raw "''level''" repr] that by simp
  show "file_name r = ''''" if "raw ''file'' = None"
    using d(4) str_get_absent [of raw "''file''" repr] that by simp
  show "thread r = ''''" if "raw ''thread'' = None"
    using d(5) str_get_absent [of raw "''thread''" repr] that by simp
  show "message r = ''''" if "raw ''message'' = None"
    using d(6) str_get_absent [of raw "''message''" repr] that by simp
  show "exc_type r = None" if "raw ''exc_type'' = None \<or> raw ''exc_type'' = Some JNull"
    using d(7) str_or_none_absent [of raw "''exc_type''" repr] that by simp
  show "exc_message r = None"
    if "raw ''exc_message'' = None \<or> raw ''exc_message'' = Some JNull"
    using d(8) str_or_none_absent [of raw "''exc_message''" repr] that by simp
  show "exc_traceback r = None"
    if "raw ''exc_traceback'' = None \<or> raw ''exc_traceback'' = Some JNull"
    using d(9) str_or_none_absent [of raw "''exc_traceback''" repr] that by simp
next
  assume "\<forall>c\<in>set record_fields. raw c = None"
  then show "from_dict repr raw =
           Inr \<lparr> time = '''', logger = '''', level = '''', file_name = '''', thread = '''',
                 message = '''', exc_type = None, exc_message = None,
                 exc_traceback = None \<rparr>"
    by (rule from_dict_all_absent)
next
  assume "\<forall>c\<in>set record_fields. raw' c = raw c"
  then show "from_dict repr raw' = from_dict repr raw"
    by (rule from_dict_agree)
qed

theorem from_dict_absent_fields_witness:
  "from_dict sample_repr (map_of [(''level'', JString ''INFO''), (''exc_type'', JNull)])
     = Inr \<lparr> time = '''', logger = '''', level = ''INFO'', file_name = '''', thread = '''',
             message = '''', exc_type = None, exc_message = None, exc_traceback = None \<rparr>
   \<and> from_dict sample_repr
         (map_of [(''extra'', JInt 1), (''level'', JString ''INFO''), (''exc_type'', JNull)])
     = Inr \<lparr> time = '''', logger = '''', level = ''INFO'', file_name = '''', thread = '''',
             message = '''', exc_type = None, exc_message = None, exc_traceback = None \<rparr>
   \<and> from_dict sample_repr (map_of []) 
     = Inr \<lparr> time = '''', logger = '''', level = '''', file_name = '''', thread = '''',
             message = '''', exc_type = None, exc_message = None, exc_traceback = None \<rparr>"
proof -
  let ?m = "map_of [(''level'', JString ''INFO''), (''exc_type'', (JNull :: unit json))]"
  let ?m' = "map_of [(''extra'', JInt 1), (''level'', JString ''INFO''),
                     (''exc_type'', (JNull :: unit json))]"
  let ?e = "map_of ([] :: (string \<times> unit json) list)"
  let ?r = "\<lparr> time = '''', logger = '''', level = ''INFO'', file_name = '''', thread = '''',
             message = '''', exc_type = None, exc_message = None, exc_traceback = None \<rparr>"
  have a: "from_dict sample_repr ?m = Inr ?r"
    by (simp add: from_dict_def str_get_cases str_or_none_cases)
  have d: "\<forall>c\<in>set record_fields. ?m' c = ?m c"
    by (simp add: record_fields_def)
  have n: "\<forall>c\<in>set record_fields. ?e c = None"
    by simp
  from from_dict_absent_fields [of sample_repr ?m ?r ?m']
  have "(\<forall>c\<in>set record_fields. ?m' c = ?m c)
      \<longrightarrow> from_dict sample_repr ?m' = from_dict sample_repr ?m"
    by (elim conjE)
  from this d have b: "from_dict sample_repr ?m' = from_dict sample_repr ?m"
    by (rule mp)
  from from_dict_absent_fields [of sample_repr ?e ?r ?e]
  have "(\<forall>c\<in>set record_fields. ?e c = None) \<longrightarrow>
         from_dict sample_repr ?e =
           Inr \<lparr> time = '''', logger = '''', level = '''', file_name = '''', thread = '''',
                 message = '''', exc_type = None, exc_message = None,
                 exc_traceback = None \<rparr>"
    by (elim conjE)
  from this n have c: "from_dict sample_repr ?e =
           Inr \<lparr> time = '''', logger = '''', level = '''', file_name = '''', thread = '''',
                 message = '''', exc_type = None, exc_message = None,
                 exc_traceback = None \<rparr>"
    by (rule mp)
  show ?thesis
    by (intro conjI) (simp_all only: a b c)
qed

text \<open>
  C10, as the code has it. \<^verbatim>\<open>from_dict\<close> returns a record on every dict on which
  \<^verbatim>\<open>str\<close> returns for the values of the nine field keys. In the record it returns, a
  mandatory field is the string itself when the value is a string, the string form
  (\<^verbatim>\<open>repr\<close>) of any other value, and the empty string when the key is missing; an
  exception field is \<^verbatim>\<open>None\<close> when the key is missing or its value is \<^verbatim>\<open>null\<close>, and the
  string form of the value otherwise. An exception that \<^verbatim>\<open>from_dict\<close> raises is one that
  \<^verbatim>\<open>str\<close> raised on the value of one of the nine keys: the \<^verbatim>\<open>KeyError\<close> of \<^verbatim>\<open>raw[k]\<close> is
  never raised.
\<close>

theorem from_dict_total_if_str_returns:
  "((\<forall>c\<in>set record_fields. \<forall>v. raw c = Some v \<longrightarrow> (\<exists>s. py_str repr v = Inr s))
      \<longrightarrow> (\<exists>r. from_dict repr raw = Inr r))
   \<and> (from_dict repr raw = Inr r \<longrightarrow>
       (case raw ''time'' of None \<Rightarrow> time r = '''' | Some (JString s) \<Rightarrow> time r = s
        | Some v \<Rightarrow> repr v = Inr (time r))
     \<and> (case raw ''logger'' of None \<Rightarrow> logger r = '''' | Some (JString s) \<Rightarrow> logger r = s
        | Some v \<Rightarrow> repr v = Inr (logger r))
     \<and> (case raw ''level'' of None \<Rightarrow> level r = '''' | Some (JString s) \<Rightarrow> level r = s
        | Some v \<Rightarrow> repr v = Inr (level r))
     \<and> (case raw ''file'' of None \<Rightarrow> file_name r = '''' | Some (JString s) \<Rightarrow> file_name r = s
        | Some v \<Rightarrow> repr v = Inr (file_name r))
     \<and> (case raw ''thread'' of None \<Rightarrow> thread r = '''' | Some (JString s) \<Rightarrow> thread r = s
        | Some v \<Rightarrow> repr v = Inr (thread r))
     \<and> (case raw ''message'' of None \<Rightarrow> message r = '''' | Some (JString s) \<Rightarrow> message r = s
        | Some v \<Rightarrow> repr v = Inr (message r))
     \<and> (case raw ''exc_type'' of None \<Rightarrow> exc_type r = None | Some JNull \<Rightarrow> exc_type r = None
        | Some (JString s) \<Rightarrow> exc_type r = Some s
        | Some v \<Rightarrow> (\<exists>s. repr v = Inr s \<and> exc_type r = Some s))
     \<and> (case raw ''exc_message'' of None \<Rightarrow> exc_message r = None
        | Some JNull \<Rightarrow> exc_message r = None
        | Some (JString s) \<Rightarrow> exc_message r = Some s
        | Some v \<Rightarrow> (\<exists>s. repr v = Inr s \<and> exc_message r = Some s))
     \<and> (case raw ''exc_traceback'' of None \<Rightarrow> exc_traceback r = None
        | Some JNull \<Rightarrow> exc_traceback r = None
        | Some (JString s) \<Rightarrow> exc_traceback r = Some s
        | Some v \<Rightarrow> (\<exists>s. repr v = Inr s \<and> exc_traceback r = Some s)))
   \<and> (from_dict repr raw = Inl e \<longrightarrow>
         (\<exists>c\<in>set record_fields. \<exists>v. raw c = Some v \<and> repr v = Inl e))"
proof (intro conjI impI)
  assume a: "\<forall>c\<in>set record_fields. \<forall>v. raw c = Some v \<longrightarrow> (\<exists>s. py_str repr v = Inr s)"
  show "\<exists>r. from_dict repr raw = Inr r"
  proof (rule from_dict_returns)
    fix c v
    assume "c \<in> set record_fields" and "raw c = Some v"
    with a show "\<exists>s. py_str repr v = Inr s"
      by blast
  qed
next
  assume r: "from_dict repr raw = Inr r"
  note d = from_dict_InrD [OF r]
  show "case raw ''time'' of None \<Rightarrow> time r = '''' | Some (JString s) \<Rightarrow> time r = s
        | Some v \<Rightarrow> repr v = Inr (time r)"
    using d(1) by (rule str_get_InrD)
  show "case raw ''logger'' of None \<Rightarrow> logger r = '''' | Some (JString s) \<Rightarrow> logger r = s
        | Some v \<Rightarrow> repr v = Inr (logger r)"
    using d(2) by (rule str_get_InrD)
  show "case raw ''level'' of None \<Rightarrow> level r = '''' | Some (JString s) \<Rightarrow> level r = s
        | Some v \<Rightarrow> repr v = Inr (level r)"
    using d(3) by (rule str_get_InrD)
  show "case raw ''file'' of None \<Rightarrow> file_name r = '''' | Some (JString s) \<Rightarrow> file_name r = s
        | Some v \<Rightarrow> repr v = Inr (file_name r)"
    using d(4) by (rule str_get_InrD)
  show "case raw ''thread'' of None \<Rightarrow> thread r = '''' | Some (JString s) \<Rightarrow> thread r = s
        | Some v \<Rightarrow> repr v = Inr (thread r)"
    using d(5) by (rule str_get_InrD)
  show "case raw ''message'' of None \<Rightarrow> message r = '''' | Some (JString s) \<Rightarrow> message r = s
        | Some v \<Rightarrow> repr v = Inr (message r)"
    using d(6) by (rule str_get_InrD)
  show "case raw ''exc_type'' of None \<Rightarrow> exc_type r = None | Some JNull \<Rightarrow> exc_type r = None
        | Some (JString s) \<Rightarrow> exc_type r = Some s
        | Some v \<Rightarrow> (\<exists>s. repr v = Inr s \<and> exc_type r = Some s)"
    using d(7) by (rule str_or_none_InrD)
  show "case raw ''exc_message'' of None \<Rightarrow> exc_message r = None
        | Some JNull \<Rightarrow> exc_message r = None
        | Some (JString s) \<Rightarrow> exc_message r = Some s
        | Some v \<Rightarrow> (\<exists>s. repr v = Inr s \<and> exc_message r = Some s)"
    using d(8) by (rule str_or_none_InrD)
  show "case raw ''exc_traceback'' of None \<Rightarrow> exc_traceback r = None
        | Some JNull \<Rightarrow> exc_traceback r = None
        | Some (JString s) \<Rightarrow> exc_traceback r = Some s
        | Some v \<Rightarrow> (\<exists>s. repr v = Inr s \<and> exc_traceback r = Some s)"
    using d(9) by (rule str_or_none_InrD)
next
  assume "from_dict repr raw = Inl e"
  then show "\<exists>c\<in>set record_fields. \<exists>v. raw c = Some v \<and> repr v = Inl e"
    by (rule from_dict_InlD)
qed

theorem from_dict_total_if_str_returns_witness:
  "\<exists>r. from_dict sample_repr
          (map_of [(''level'', JBool True), (''message'', JString ''hi''),
                   (''exc_type'', JNull), (''exc_message'', JBool False)]) = Inr r
      \<and> level r = ''True'' \<and> message r = ''hi'' \<and> time r = ''''
      \<and> exc_type r = None \<and> exc_message r = Some ''False'' \<and> exc_traceback r = None"
proof -
  let ?m = "map_of [(''level'', JBool True), (''message'', JString ''hi''),
                   (''exc_type'', (JNull :: unit json)), (''exc_message'', JBool False)]"
  have h: "\<forall>c\<in>set record_fields. \<forall>v. ?m c = Some v \<longrightarrow> (\<exists>s. py_str sample_repr v = Inr s)"
    by (simp add: record_fields_def py_str_def sample_repr_def)
  from from_dict_total_if_str_returns [of ?m sample_repr, THEN conjunct1] h
  have "\<exists>r. from_dict sample_repr ?m = Inr r"
    by (rule mp)
  then obtain r where r: "from_dict sample_repr ?m = Inr r" ..
  note f = from_dict_total_if_str_returns [of ?m sample_repr r, THEN conjunct2,
      THEN conjunct1, THEN mp, OF r]
  from f have "level r = ''True''" and "message r = ''hi''" and "time r = ''''"
    and "exc_type r = None" and "exc_message r = Some ''False''" and "exc_traceback r = None"
    by (simp_all add: sample_repr_def)
  with r show ?thesis
    by (intro exI [of _ r] conjI)
qed

text \<open>
  C10 as the specification words it does not hold: \<^verbatim>\<open>from_dict({'time': 10**4300})\<close>
  raises the \<^verbatim>\<open>ValueError\<close> of \<^verbatim>\<open>str\<close> on an \<^verbatim>\<open>int\<close> of 4301 digits.
\<close>

theorem from_dict_raises_on_long_int:
  "from_dict sample_repr (map_of [(''time'', JInt (10 ^ 4300))])
     = Inl (ValueError ''Exceeds the limit (4300 digits) for integer string conversion'')"
proof -
  have k: "sample_repr (JInt (10 ^ 4300))
     = Inl (ValueError ''Exceeds the limit (4300 digits) for integer string conversion'')"
    unfolding sample_repr_def by (simp only: json.case power_abs abs_numeral order_refl if_True)
  have g: "str_get sample_repr (map_of [(''time'', JInt (10 ^ 4300))]) ''time''
     = Inl (ValueError ''Exceeds the limit (4300 digits) for integer string conversion'')"
    unfolding str_get_def dict_get_def py_str_def
    by (simp only: map_of.simps fst_conv snd_conv fun_upd_same option.case json.case k)
  show ?thesis
    unfolding from_dict_def by (simp only: g bind_exn_Inl)
qed

subsection \<open>Reading a file\<close>









lemma py_list_Some: "snd g = Some e \<Longrightarrow> py_list g = Inl e"
  by (simp add: py_list_def)

lemma py_list_None: "snd g = None \<Longrightarrow> py_list g = Inr (fst g)"
  by (simp add: py_list_def)














section \<open>Properties of the record model and of the serializer\<close>

lemma exception_fields_None:
  "exception_fields str_value format_exception None = Inr (None, None, None)"
  by (simp add: exception_fields_def)

lemma exception_fields_Some_InrD:
  assumes "exception_fields str_value format_exception (Some (etype, evalue, etb)) = Inr x"
  shows "fst x = map_option dunder_name etype"
    and "fst (snd x) = None \<longleftrightarrow> evalue = None"
    and "\<And>v. evalue = Some v \<Longrightarrow> str_value v = Inr (the (fst (snd x)))"
    and "snd (snd x) = None \<longleftrightarrow> (\<exists>e. format_exception etype evalue etb = Inl e)"
    and "\<And>parts. format_exception etype evalue etb = Inr parts
           \<Longrightarrow> snd (snd x) = Some (concat parts)"
  using assms
  by (auto simp add: exception_fields_def bind_exn_eq_Inr Let_def
      split: option.splits sum.splits if_splits)

lemma exception_fields_returns:
  assumes "\<And>v. evalue = Some v \<Longrightarrow> \<exists>s. str_value v = Inr s"
    and "\<And>e. format_exception etype evalue etb = Inl e \<Longrightarrow> is_Exception e"
  shows "\<exists>x. exception_fields str_value format_exception (Some (etype, evalue, etb)) = Inr x"
proof -
  have "\<exists>m. (case evalue of None \<Rightarrow> Inr None
             | Some v \<Rightarrow> bind_exn (str_value v) (\<lambda>s. Inr (Some s))) = Inr m"
    using assms(1) by (cases evalue) auto
  moreover have "\<exists>t. (case format_exception etype evalue etb of
                      Inl e \<Rightarrow> if is_Exception e then Inr None else Inl e
                    | Inr parts \<Rightarrow> Inr (Some (concat parts))) = Inr t"
    using assms(2) by (cases "format_exception etype evalue etb") auto
  ultimately show ?thesis
    by (auto simp add: exception_fields_def Let_def)
qed

lemma from_record_InrD:
  assumes "from_record formatTime str_value format_exception record = Inr e"
  shows "\<exists>x. exception_fields str_value format_exception (exc_info record) = Inr x
     \<and> entry_exc_type e = fst x \<and> entry_exc_message e = fst (snd x)
     \<and> entry_exc_traceback e = snd (snd x)"
  using assms unfolding from_record_def
  by (elim bind_exn_InrE) auto

lemma from_record_returns:
  assumes "formatTime record = Inr tm"
    and "exception_fields str_value format_exception (exc_info record) = Inr x"
    and "getMessage record = Inr msg"
  shows "\<exists>e. from_record formatTime str_value format_exception record = Inr e"
  by (simp add: from_record_def assms)

text \<open>
  C3, as the code has it. In every entry \<^verbatim>\<open>from_record\<close> returns, the three exception
  fields are all \<^verbatim>\<open>None\<close> when the record has no \<^verbatim>\<open>exc_info\<close>. When it has one, each
  field is set on its own: \<^verbatim>\<open>exc_type\<close> is the name of the class when the class is not
  \<^verbatim>\<open>None\<close>, \<^verbatim>\<open>exc_message\<close> is \<^verbatim>\<open>str\<close> of the exception when the exception is not
  \<^verbatim>\<open>None\<close>, and \<^verbatim>\<open>exc_traceback\<close> is the joined text of \<^verbatim>\<open>format_exception\<close> when that
  returns, \<^verbatim>\<open>None\<close> when it raises. So the three are set together when class and
  exception are there and \<^verbatim>\<open>format_exception\<close> returns. \<^verbatim>\<open>from_record\<close> returns when
  \<^verbatim>\<open>formatTime\<close>, \<^verbatim>\<open>getMessage\<close> and \<^verbatim>\<open>str\<close> of the exception return and
  \<^verbatim>\<open>format_exception\<close> raises nothing but an \<^verbatim>\<open>Exception\<close>.
\<close>

theorem from_record_exception_fields:
  "(from_record formatTime str_value format_exception record = Inr e \<longrightarrow>
      (exc_info record = None \<longrightarrow>
         entry_exc_type e = None \<and> entry_exc_message e = None \<and> entry_exc_traceback e = None)
    \<and> (\<forall>etype evalue etb. exc_info record = Some (etype, evalue, etb) \<longrightarrow>
         entry_exc_type e = map_option dunder_name etype
       \<and> (entry_exc_message e = None \<longleftrightarrow> evalue = None)
       \<and> (\<forall>v. evalue = Some v \<longrightarrow> str_value v = Inr (the (entry_exc_message e)))
       \<and> (entry_exc_traceback e = None \<longleftrightarrow> (\<exists>x. format_exception etype evalue etb = Inl x))
       \<and> (\<forall>parts. format_exception etype evalue etb = Inr parts
             \<longrightarrow> entry_exc_traceback e = Some (concat parts))
       \<and> (etype \<noteq> None \<and> evalue \<noteq> None
           \<and> (\<exists>parts. format_exception etype evalue etb = Inr parts)
           \<longrightarrow> entry_exc_type e \<noteq> None \<and> entry_exc_message e \<noteq> None
               \<and> entry_exc_traceback e \<noteq> None)))
   \<and> ((\<exists>tm. formatTime record = Inr tm) \<and> (\<exists>msg. getMessage record = Inr msg)
       \<and> (\<forall>etype evalue etb. exc_info record = Some (etype, evalue, etb) \<longrightarrow>
            (\<forall>v. evalue = Some v \<longrightarrow> (\<exists>s. str_value v = Inr s))
          \<and> (\<forall>x. format_exception etype evalue etb = Inl x \<longrightarrow> is_Exception x))
       \<longrightarrow> (\<exists>e. from_record formatTime str_value format_exception record = Inr e))"
proof (intro conjI impI allI)
  assume r: "from_record formatTime str_value format_exception record = Inr e"
  from from_record_InrD [OF r] obtain x
    where x: "exception_fields str_value format_exception (exc_info record) = Inr x"
      and f: "entry_exc_type e = fst x" "entry_exc_message e = fst (snd x)"
        "entry_exc_traceback e = snd (snd x)"
    by blast
  {
    assume "exc_info record = None"
    with x have "x = (None, None, None)"
      by (simp add: exception_fields_None)
    with f show "entry_exc_type e = None" and "entry_exc_message e = None"
      and "entry_exc_traceback e = None"
      by simp_all
  }
  fix etype evalue etb
  assume i: "exc_info record = Some (etype, evalue, etb)"
  from x i
  have y: "exception_fields str_value format_exception (Some (etype, evalue, etb)) = Inr x"
    by simp
  note d = exception_fields_Some_InrD [OF y]
  show t: "entry_exc_type e = map_option dunder_name etype"
    using d(1) f by simp
  show m: "entry_exc_message e = None \<longleftrightarrow> evalue = None"
    using d(2) f by simp
  show "str_value v = Inr (the (entry_exc_message e))" if "evalue = Some v" for v
    using d(3) [OF that] f by simp
  show b: "entry_exc_traceback e = None \<longleftrightarrow> (\<exists>x. format_exception etype evalue etb = Inl x)"
    using d(4) f by simp
  show "entry_exc_traceback e = Some (concat parts)"
    if "format_exception etype evalue etb = Inr parts" for parts
    using d(5) [OF that] f by simp
  {
    assume a: "etype \<noteq> None \<and> evalue \<noteq> None
      \<and> (\<exists>parts. format_exception etype evalue etb = Inr parts)"
    from a t show "entry_exc_type e \<noteq> None"
      by simp
    from a m show "entry_exc_message e \<noteq> None"
      by simp
    from a b show "entry_exc_traceback e \<noteq> None"
      by auto
  }
next
  assume a: "(\<exists>tm. formatTime record = Inr tm) \<and> (\<exists>msg. getMessage record = Inr msg)
       \<and> (\<forall>etype evalue etb. exc_info record = Some (etype, evalue, etb) \<longrightarrow>
            (\<forall>v. evalue = Some v \<longrightarrow> (\<exists>s. str_value v = Inr s))
          \<and> (\<forall>x. format_exception etype evalue etb = Inl x \<longrightarrow> is_Exception x))"
  then obtain tm msg where tm: "formatTime record = Inr tm" and msg: "getMessage record = Inr msg"
    by blast
  have "\<exists>x. exception_fields str_value format_exception (exc_info record) = Inr x"
  proof (cases "exc_info record")
    case None
    then show ?thesis
      by (simp add: exception_fields_None)
  next
    case (Some i)
    obtain etype evalue etb where i: "i = (etype, evalue, etb)"
      by (cases i) auto
    from a Some i have "\<And>v. evalue = Some v \<Longrightarrow> \<exists>s. str_value v = Inr s"
      and "\<And>x. format_exception etype evalue etb = Inl x \<Longrightarrow> is_Exception x"
      by blast+
    then have "\<exists>x. exception_fields str_value format_exception (Some (etype, evalue, etb))
        = Inr x"
      by (rule exception_fields_returns)
    then show ?thesis
      by (simp add: Some i)
  qed
  then obtain x where "exception_fields str_value format_exception (exc_info record) = Inr x" ..
  with tm show "\<exists>e. from_record formatTime str_value format_exception record = Inr e"
    using msg by (rule from_record_returns)
qed

theorem from_record_exception_fields_witness:
  "\<exists>e. from_record sample_formatTime sample_str_value sample_format_exception
          (sample_record \<lparr> exc_info :=
             Some (Some (Class ''ValueError''), Some (''ValueError'', ''bad''), None) \<rparr>) = Inr e
      \<and> entry_exc_type e = Some ''ValueError''
      \<and> entry_exc_message e \<noteq> None
      \<and> entry_exc_traceback e = Some (''ValueError: bad'' @ [CHR 0x0A])"
proof -
  let ?r = "sample_record \<lparr> exc_info :=
             Some (Some (Class ''ValueError''), Some (''ValueError'', ''bad''), None) \<rparr>"
  note t = from_record_exception_fields
    [of sample_formatTime sample_str_value sample_format_exception ?r]
  have h: "(\<exists>tm. sample_formatTime ?r = Inr tm) \<and> (\<exists>msg. getMessage ?r = Inr msg)
       \<and> (\<forall>etype evalue etb. exc_info ?r = Some (etype, evalue, etb) \<longrightarrow>
            (\<forall>v. evalue = Some v \<longrightarrow> (\<exists>s. sample_str_value v = Inr s))
          \<and> (\<forall>x. sample_format_exception etype evalue etb = Inl x \<longrightarrow> is_Exception x))"
    by (simp add: sample_formatTime_def sample_record_def sample_str_value_def
        sample_format_exception_def)
  from t [THEN conjunct2] h
  have "\<exists>e. from_record sample_formatTime sample_str_value sample_format_exception ?r = Inr e"
    by (rule mp)
  then obtain e
    where e: "from_record sample_formatTime sample_str_value sample_format_exception ?r = Inr e" ..
  have i: "exc_info ?r = Some (Some (Class ''ValueError''), Some (''ValueError'', ''bad''), None)"
    by simp
  note u = from_record_exception_fields
    [of sample_formatTime sample_str_value sample_format_exception ?r e,
      THEN conjunct1, THEN mp, OF e, THEN conjunct2, THEN spec, THEN spec, THEN spec,
      THEN mp, OF i]
  from u have "entry_exc_type e = Some ''ValueError''"
    by simp
  moreover from u have "entry_exc_message e \<noteq> None"
    by simp
  moreover from u have "entry_exc_traceback e = Some (''ValueError: bad'' @ [CHR 0x0A])"
    by (simp add: sample_format_exception_def)
  ultimately show ?thesis
    using e by blast
qed

text \<open>
  C3 as the specification words it does not hold. A record logged with
  \<^verbatim>\<open>exc_info=True\<close> outside an \<^verbatim>\<open>except\<close> block has \<^verbatim>\<open>exc_info = (None, None, None)\<close>;
  its entry has a traceback, \<^verbatim>\<open>NoneType: None\<close>, and neither a type nor a message.
\<close>

theorem from_record_partial_exception_fields:
  "from_record sample_formatTime sample_str_value sample_format_exception sample_record
     = Inr \<lparr> entry_time = ''2026-01-01 00:00:00'', entry_logger = ''app'',
             entry_level = ''ERROR'', entry_file = ''main.py'', entry_thread = ''MainThread'',
             entry_message = ''boom'', entry_exc_type = None, entry_exc_message = None,
             entry_exc_traceback = Some (''NoneType: None'' @ [CHR 0x0A]) \<rparr>"
  by (simp add: from_record_def exception_fields_def sample_formatTime_def sample_record_def
      sample_format_exception_def)

subsection \<open>Round trip\<close>








end
